theory Spec2Isabelle
  imports Main "HOL-Library.Sublist"
begin

section \<open>The result object of a build and flash job\<close>

text \<open>
  Modelled from the spec: the enumeration \<open>BuildFirmwareErrorType\<close> is imported by
  \<open>BuildFlashFirmwareResult.ts\<close> from \<open>models/enum/BuildFirmwareErrorType\<close>, a file that is
  not among the sources. The constructors below are the error categories the specification
  names literally. The result class is modelled for any enumeration \<open>'e\<close>; this datatype
  only supplies concrete values for the closed examples.
\<close>

datatype BuildFirmwareErrorType =
  ToolchainMissing | DeviceNotFound | UnknownBuildError | Cancelled

text \<open>
  The class \<open>BuildFlashFirmwareResult\<close>: \<open>success\<close> is a required boolean, the three
  other fields are optional (\<open>?:\<close>), so an absent value is \<open>None\<close>.
\<close>

record 'e BuildFlashFirmwareResult =
  success :: bool
  errorType :: "'e option"
  message :: "string option"
  firmwareBinPath :: "string option"

text \<open>
  The constructor. Its parameters come in the order \<open>success, message, errorType,
  firmwareBinPath\<close>; its body assigns \<open>this.success\<close>, \<open>this.errorType\<close>,
  \<open>this.message\<close>, \<open>this.firmwareBinPath\<close> from the parameter of the same name.
\<close>

definition new_BuildFlashFirmwareResult ::
  "bool \<Rightarrow> string option \<Rightarrow> 'e option \<Rightarrow> string option \<Rightarrow> 'e BuildFlashFirmwareResult" where
  "new_BuildFlashFirmwareResult success_arg message_arg errorType_arg firmwareBinPath_arg =
     \<lparr> success = success_arg,
       errorType = errorType_arg,
       message = message_arg,
       firmwareBinPath = firmwareBinPath_arg \<rparr>"

section \<open>Composition of PATH in the main process\<close>

text \<open>
  \<open>main.dev.ts\<close> uses two members of Node's \<open>path\<close> module, which is a library and not
  code of the repository: they are parameters of the model. \<open>path.delimiter\<close> is the
  one-character separator of PATH entries of the platform the process runs on;
  \<open>path.join\<close> is applied here to two segments.
\<close>

record node_path =
  path_delimiter :: char
  path_join :: "string \<Rightarrow> string \<Rightarrow> string"

text \<open>\<open>String.prototype.startsWith\<close>: the string begins with the search string.\<close>

definition startsWith :: "string \<Rightarrow> string \<Rightarrow> bool" where
  "startsWith str searchString = prefix searchString str"

text \<open>\<open>process.env.PATH ?? ''\<close>: the variable, or the empty string when it is undefined.\<close>

definition inheritedPATH :: "(string \<rightharpoonup> string) \<Rightarrow> string" where
  "inheritedPATH env = (case env ''PATH'' of None \<Rightarrow> [] | Some v \<Rightarrow> v)"

text \<open>The local function \<open>prependPATH (pth, item)\<close> of \<open>createWindow\<close>.\<close>

definition prependPATH :: "node_path \<Rightarrow> string \<Rightarrow> string \<Rightarrow> string" where
  "prependPATH P pth item =
     (if length pth > 0 then item @ [path_delimiter P] @ pth else item)"

definition isWindows :: "string \<Rightarrow> bool" where
  "isWindows platform = startsWith platform ''win''"

definition isMacOS :: "string \<Rightarrow> bool" where
  "isMacOS platform = startsWith platform ''darwin''"

text \<open>The four portable locations, each \<open>path.join (dependenciesPath, literal)\<close>.\<close>

definition windows_portablePythonLocation :: "node_path \<Rightarrow> string \<Rightarrow> string" where
  "windows_portablePythonLocation P dependenciesPath =
     path_join P dependenciesPath ''windows_amd64/python-portable-windows_amd64-3.7.7''"

definition windows_portableGitLocation :: "node_path \<Rightarrow> string \<Rightarrow> string" where
  "windows_portableGitLocation P dependenciesPath =
     path_join P dependenciesPath ''windows_amd64/PortableGit/bin''"

definition darwin_portablePythonLocation :: "node_path \<Rightarrow> string \<Rightarrow> string" where
  "darwin_portablePythonLocation P dependenciesPath =
     path_join P dependenciesPath ''darwin_amd64/python-portable-darwin-3.8.4/bin''"

definition darwin_portableGitLocation :: "node_path \<Rightarrow> string \<Rightarrow> string" where
  "darwin_portableGitLocation P dependenciesPath =
     path_join P dependenciesPath ''darwin_amd64/git/2.30.1/bin''"

text \<open>
  The value of the variable \<open>PATH\<close> of \<open>createWindow\<close> when it is handed to the local
  server: the inherited value, then the Windows block, then the macOS block, each block
  prepending the Python location first and the Git location second. The inputs are the
  \<open>path\<close> module, \<open>process.platform\<close>, \<open>dependenciesPath\<close> and \<open>process.env\<close>.
\<close>

definition createWindow_PATH ::
  "node_path \<Rightarrow> string \<Rightarrow> string \<Rightarrow> (string \<rightharpoonup> string) \<Rightarrow> string" where
  "createWindow_PATH P platform dependenciesPath env =
     (let PATH0 = inheritedPATH env;
          PATH1 =
            (if isWindows platform then
               (let portablePythonLocation = windows_portablePythonLocation P dependenciesPath;
                    portableGitLocation = windows_portableGitLocation P dependenciesPath;
                    PATHa = prependPATH P PATH0 portablePythonLocation
                in prependPATH P PATHa portableGitLocation)
             else PATH0);
          PATH2 =
            (if isMacOS platform then
               (let portablePythonLocation = darwin_portablePythonLocation P dependenciesPath;
                    portableGitLocation = darwin_portableGitLocation P dependenciesPath;
                    PATHb = prependPATH P PATH1 portablePythonLocation
                in prependPATH P PATHb portableGitLocation)
             else PATH1)
      in PATH2)"

text \<open>
  What the claims call the entries of a PATH string: the pieces between occurrences of the
  delimiter (the empty string has the single entry \<open>''\<close>, as JavaScript's \<open>split\<close> gives).
\<close>

fun PATH_entries :: "char \<Rightarrow> string \<Rightarrow> string list" where
  "PATH_entries d [] = [[]]"
| "PATH_entries d (c # cs) =
     (if c = d then [] # PATH_entries d cs
      else (case PATH_entries d cs of
              [] \<Rightarrow> [[c]]
            | w # ws \<Rightarrow> (c # w) # ws))"

text \<open>The position of the first occurrence of an entry (the length when there is none).\<close>

definition first_index :: "'a \<Rightarrow> 'a list \<Rightarrow> nat" where
  "first_index x xs = length (takeWhile (\<lambda>y. y \<noteq> x) xs)"

text \<open>
  For the closed examples: the \<open>path\<close> module of a POSIX platform, where the delimiter is
  \<open>:\<close>. The examples join an absolute directory without trailing slash and a relative
  path, both already normalised; there \<open>path.join\<close> is concatenation with \<open>/\<close>.
\<close>

definition example_posix_path :: node_path where
  "example_posix_path =
     \<lparr> path_delimiter = CHR '':'', path_join = (\<lambda>a b. a @ ''/'' @ b) \<rparr>"

section \<open>The handlers of fatal errors\<close>

text \<open>
  The value that reaches a handler is whatever was thrown or rejected with, not only an
  \<open>Error\<close>. The handlers do three things with it: they render \<open>${err.message}\<close>, read
  \<open>err.stack\<close> and render \<open>${err}\<close>. On \<open>null\<close> and \<open>undefined\<close> a property read throws a
  \<open>TypeError\<close>. For any other value the model records the text of \<open>${err.message}\<close>
  (\<open>None\<close> when evaluating it throws), the stack (\<open>None\<close> when it is undefined) and the
  text of \<open>${err}\<close> (\<open>None\<close> when the conversion to a string throws, as for an object
  without \<open>toString\<close> or a symbol).
\<close>

datatype js_value =
  JsNull
| JsUndefined
| JsValue (obj_message: "string option") (obj_stack: "string option") (obj_text: "string option")

text \<open>The template \<open>${v}\<close>; \<open>None\<close> when it throws.\<close>

fun render :: "js_value \<Rightarrow> string option" where
  "render JsNull = Some ''null''"
| "render JsUndefined = Some ''undefined''"
| "render (JsValue m s t) = t"

text \<open>The template \<open>${v.message}\<close>; \<open>None\<close> when it throws.\<close>

fun render_message :: "js_value \<Rightarrow> string option" where
  "render_message JsNull = None"
| "render_message JsUndefined = None"
| "render_message (JsValue m s t) = m"

text \<open>The read \<open>v.stack\<close>; \<open>None\<close> when it throws, \<open>Some None\<close> when it is undefined.\<close>

fun read_stack :: "js_value \<Rightarrow> string option option" where
  "read_stack JsNull = None"
| "read_stack JsUndefined = None"
| "read_stack (JsValue m s t) = Some s"

text \<open>
  \<open>dialog.showMessageBox\<close> either throws at the call, or returns a promise that is
  fulfilled when the user closes the box, is rejected with some value, or is still pending
  while the box is open.
\<close>

datatype dialog_outcome = Throws | Resolves | Rejects js_value | Pending

text \<open>
  What a handler does, in order. \<open>ListenerThrows\<close> is a \<open>TypeError\<close> that leaves the event
  listener (lines 55, 87 and 91 stand outside every \<open>try\<close>); \<open>CallbackThrows\<close> is one that
  leaves the \<open>catch\<close> callback of the dialog's promise (line 73). Nothing of the handler
  runs after either.
\<close>

datatype effect =
  LoggerError string "string option"
| ShowMessageBox string
| ConsoleLog string
| ShowErrorBox string string
| ProcessExit int
| ListenerThrows
| CallbackThrows

definition handleFatalError :: "js_value \<Rightarrow> dialog_outcome \<Rightarrow> effect list" where
  "handleFatalError err outcome =
     (case render err of
        None \<Rightarrow> [ListenerThrows]
      | Some text \<Rightarrow>
          LoggerError (''handling fatal error: '' @ text) None #
          (case outcome of
             Resolves \<Rightarrow>
               [ShowMessageBox (''Error: '' @ text),
                ConsoleLog ''received resp from message box'',
                ProcessExit 1]
           | Rejects dialogErr \<Rightarrow>
               ShowMessageBox (''Error: '' @ text) #
               (case read_stack dialogErr of
                  None \<Rightarrow> [CallbackThrows]
                | Some stack \<Rightarrow>
                    [LoggerError ''failed to show error dialog'' stack,
                     ProcessExit 1])
           | Throws \<Rightarrow>
               [ShowErrorBox ''Oops! Something went wrong!'' (''Error: '' @ text),
                ProcessExit 1]
           | Pending \<Rightarrow>
               [ShowMessageBox (''Error: '' @ text)]))"

text \<open>\<open>process.on ('uncaughtException', ...)\<close> and \<open>process.on ('unhandledRejection', ...)\<close>.\<close>

definition on_uncaughtException :: "js_value \<Rightarrow> dialog_outcome \<Rightarrow> effect list" where
  "on_uncaughtException err outcome =
     (case render_message err of
        None \<Rightarrow> [ListenerThrows]
      | Some msg \<Rightarrow>
          (case read_stack err of
             None \<Rightarrow> [ListenerThrows]
           | Some stack \<Rightarrow>
               LoggerError (''uncaughtException '' @ msg) stack #
               handleFatalError err outcome))"

definition on_unhandledRejection :: "js_value \<Rightarrow> dialog_outcome \<Rightarrow> effect list" where
  "on_unhandledRejection err outcome =
     (case render err of
        None \<Rightarrow> [ListenerThrows]
      | Some text \<Rightarrow>
          LoggerError (''unhandledRejection: '' @ text) None #
          handleFatalError err outcome)"

text \<open>
  Where a run of a handler leaves the process: \<open>process.exit\<close> ends it with the given
  code; a \<open>TypeError\<close> that leaves the listener or the callback goes back to the runtime
  with no call of \<open>process.exit\<close> made; otherwise the process is running.
\<close>

datatype process_status = Running | Exited int | ListenerThrew | CallbackThrew

fun process_after :: "effect list \<Rightarrow> process_status" where
  "process_after [] = Running"
| "process_after (ProcessExit code # es) = Exited code"
| "process_after (ListenerThrows # es) = ListenerThrew"
| "process_after (CallbackThrows # es) = CallbackThrew"
| "process_after (e # es) = process_after es"

text \<open>
  Node ends the process with exit code 7 when a listener of \<open>uncaughtException\<close> itself
  throws.
\<close>

definition uncaughtException_status :: "effect list \<Rightarrow> process_status" where
  "uncaughtException_status es =
     (case process_after es of ListenerThrew \<Rightarrow> Exited 7 | st \<Rightarrow> st)"

text \<open>What a handler has done before it calls \<open>process.exit\<close>.\<close>

fun is_exit :: "effect \<Rightarrow> bool" where
  "is_exit (ProcessExit code) = True"
| "is_exit e = False"

definition before_exit :: "effect list \<Rightarrow> effect list" where
  "before_exit es = takeWhile (\<lambda>e. \<not> is_exit e) es"

section \<open>Properties of the result object\<close>

text \<open>
  C8. The constructor assigns each argument to the field of the same name: the fields
  \<open>success\<close>, \<open>message\<close>, \<open>errorType\<close> and \<open>firmwareBinPath\<close> of the constructed object
  equal the arguments \<open>success\<close>, \<open>message\<close>, \<open>errorType\<close> and \<open>firmwareBinPath\<close>; the
  second argument lands in \<open>message\<close> and the third in \<open>errorType\<close>, although the fields
  are declared in the other order.
\<close>

theorem constructor_assigns_same_named_fields:
  "success (new_BuildFlashFirmwareResult s m e f) = s \<and>
   message (new_BuildFlashFirmwareResult s m e f) = m \<and>
   errorType (new_BuildFlashFirmwareResult s m e f) = e \<and>
   firmwareBinPath (new_BuildFlashFirmwareResult s m e f) = f"
  by (simp add: new_BuildFlashFirmwareResult_def)

text \<open>
  C6. \<open>firmwareBinPath\<close> is independent of the success flag: a result with
  \<open>success = false\<close> and a present \<open>firmwareBinPath\<close> exists (the scenario of a build that
  succeeded followed by a flash that failed), and the constructor keeps every combination
  of success flag and artifact path it is given.
\<close>

theorem firmwareBinPath_independent_of_success:
  "\<not> success (new_BuildFlashFirmwareResult False m (Some DeviceNotFound) (Some p)) \<and>
   firmwareBinPath (new_BuildFlashFirmwareResult False m (Some DeviceNotFound) (Some p)) = Some p \<and>
   (\<forall>s f. success (new_BuildFlashFirmwareResult s m e f) = s \<and>
          firmwareBinPath (new_BuildFlashFirmwareResult s m e f) = f)"
  by (simp add: new_BuildFlashFirmwareResult_def)

text \<open>
  C1, as stated, fails on the constructor: it accepts \<open>success = true\<close> together with a
  present error type (and \<open>success = false\<close> with none), and stores both unchanged.
\<close>

theorem constructor_breaks_success_iff_no_errorType:
  "\<not> (success (new_BuildFlashFirmwareResult True None (Some UnknownBuildError) None)
        \<longleftrightarrow> errorType (new_BuildFlashFirmwareResult True None (Some UnknownBuildError) None) = None)"
  by (simp add: new_BuildFlashFirmwareResult_def)

text \<open>
  C1, amended. The constructor neither checks nor repairs the relation between the success
  flag and the error type: the constructed result satisfies
  \<open>success = true \<longleftrightarrow> errorType absent\<close> exactly when the arguments passed for \<open>success\<close>
  and \<open>errorType\<close> do. The invariant is an obligation of the code that calls the
  constructor.
\<close>

theorem constructor_success_iff_no_errorType_as_given:
  "(success (new_BuildFlashFirmwareResult s m e f)
      \<longleftrightarrow> errorType (new_BuildFlashFirmwareResult s m e f) = None)
   \<longleftrightarrow> (s \<longleftrightarrow> e = None)"
  by (simp add: new_BuildFlashFirmwareResult_def)

section \<open>Properties of the PATH composition\<close>

text \<open>
  Every operation of the composition is defined on all strings (\<open>??\<close>, \<open>length\<close>,
  \<open>startsWith\<close>, the template literal, \<open>path.join\<close> on two strings), so the model is a
  plain function: there is no failing branch to return.
\<close>

lemma windows_not_macOS: "isWindows platform \<Longrightarrow> \<not> isMacOS platform"
  by (auto simp: isWindows_def isMacOS_def startsWith_def prefix_def)

lemma prependPATH_unfold:
  "prependPATH P pth item = (if pth = [] then item else item @ path_delimiter P # pth)"
  by (simp add: prependPATH_def)

lemma PATH_entries_nonempty: "PATH_entries d s \<noteq> []"
  by (induction s) (simp_all split: list.splits)

lemma PATH_entries_append:
  "PATH_entries d (a @ d # b) = PATH_entries d a @ PATH_entries d b"
  by (induction a) (auto simp add: PATH_entries_nonempty split: list.splits)

lemma prepend_twice:
  assumes "py \<noteq> []"
  shows "prependPATH P (prependPATH P inh py) git =
           git @ path_delimiter P # py @ (if inh = [] then [] else path_delimiter P # inh)"
  using assms by (simp add: prependPATH_unfold)

lemma prepend_twice_entries:
  assumes "py \<noteq> []"
  shows "PATH_entries (path_delimiter P) (prependPATH P (prependPATH P inh py) git) =
           PATH_entries (path_delimiter P) git @ PATH_entries (path_delimiter P) py @
           (if inh = [] then [] else PATH_entries (path_delimiter P) inh)"
  using assms by (simp add: prependPATH_unfold PATH_entries_append)

lemma createWindow_PATH_windows:
  "isWindows platform \<Longrightarrow>
   createWindow_PATH P platform dep env =
     prependPATH P (prependPATH P (inheritedPATH env) (windows_portablePythonLocation P dep))
       (windows_portableGitLocation P dep)"
  by (simp add: createWindow_PATH_def windows_not_macOS)

lemma createWindow_PATH_macOS:
  "isMacOS platform \<Longrightarrow>
   createWindow_PATH P platform dep env =
     prependPATH P (prependPATH P (inheritedPATH env) (darwin_portablePythonLocation P dep))
       (darwin_portableGitLocation P dep)"
  using windows_not_macOS [of platform] by (auto simp add: createWindow_PATH_def Let_def)

text \<open>
  C5. For every item and every non-empty PATH string \<open>pth\<close>, \<open>prependPATH\<close> returns
  the item, then the path delimiter of the platform's \<open>path\<close> module once, then \<open>pth\<close>
  unchanged.
\<close>

theorem prependPATH_nonempty_pth:
  "pth \<noteq> [] \<Longrightarrow> prependPATH P pth item = item @ [path_delimiter P] @ pth"
  by (simp add: prependPATH_def)

text \<open>C5 at a concrete input: a Git directory put in front of \<open>/usr/bin\<close>.\<close>

theorem prependPATH_nonempty_pth_witness:
  "''/usr/bin'' \<noteq> [] \<and>
   prependPATH example_posix_path ''/usr/bin'' ''/opt/git/bin'' = ''/opt/git/bin:/usr/bin''"
  using prependPATH_nonempty_pth [of "''/usr/bin''" example_posix_path "''/opt/git/bin''"]
  by (simp add: example_posix_path_def)

text \<open>
  C9. With an empty existing PATH, \<open>prependPATH\<close> returns the item alone, with no delimiter
  before or after it; for every input the result begins with the item; and for every item
  the function receives (each is a result of \<open>path.join\<close>, which is never the empty
  string) the result is non-empty.
\<close>

theorem prependPATH_item_alone_and_first:
  "prependPATH P [] item = item \<and>
   prefix item (prependPATH P pth item) \<and>
   (item \<noteq> [] \<longrightarrow> prependPATH P pth item \<noteq> [])"
  by (simp add: prependPATH_def)

text \<open>C9 for a Python directory, in front of an empty PATH and of \<open>/usr/bin\<close>.\<close>

theorem prependPATH_item_alone_and_first_witness:
  "''/opt/python/bin'' \<noteq> [] \<and>
   prependPATH example_posix_path [] ''/opt/python/bin'' = ''/opt/python/bin'' \<and>
   prefix ''/opt/python/bin'' (prependPATH example_posix_path ''/usr/bin'' ''/opt/python/bin'') \<and>
   prependPATH example_posix_path ''/usr/bin'' ''/opt/python/bin'' \<noteq> []"
  using prependPATH_item_alone_and_first [of example_posix_path "''/opt/python/bin''" "[]"]
    prependPATH_item_alone_and_first [of example_posix_path "''/opt/python/bin''" "''/usr/bin''"]
  by simp

text \<open>
  C3. On a platform whose identifier starts neither with \<open>win\<close> nor with \<open>darwin\<close>, the
  composition returns the inherited PATH unmodified (the empty string when the variable is
  undefined); being a total function, it returns for every input.
\<close>

theorem unrecognized_platform_keeps_PATH:
  assumes "\<not> isWindows platform" and "\<not> isMacOS platform"
  shows "createWindow_PATH P platform dependenciesPath env =
           (case env ''PATH'' of None \<Rightarrow> [] | Some v \<Rightarrow> v)"
  using assms by (simp add: createWindow_PATH_def inheritedPATH_def)

text \<open>C3 on Linux.\<close>

theorem unrecognized_platform_keeps_PATH_witness:
  "\<not> isWindows ''linux'' \<and> \<not> isMacOS ''linux'' \<and>
   createWindow_PATH example_posix_path ''linux'' ''/opt/app/dependencies''
     [''PATH'' \<mapsto> ''/usr/local/bin:/usr/bin''] = ''/usr/local/bin:/usr/bin''"
  using unrecognized_platform_keeps_PATH [of "''linux''" example_posix_path
      "''/opt/app/dependencies''" "[''PATH'' \<mapsto> ''/usr/local/bin:/usr/bin'']"]
  by (simp add: isWindows_def isMacOS_def startsWith_def)

text \<open>
  Of the environment the composition reads the variable \<open>PATH\<close> only.
\<close>

lemma createWindow_PATH_reads_only_PATH:
  assumes "env1 ''PATH'' = env2 ''PATH''"
  shows "createWindow_PATH P platform dependenciesPath env1 =
         createWindow_PATH P platform dependenciesPath env2"
  using assms by (simp add: createWindow_PATH_def inheritedPATH_def)

text \<open>
  The composition on one concrete macOS input, and the entries of the string it gives.
\<close>

lemma example_darwin_PATH:
  "createWindow_PATH example_posix_path ''darwin'' ''/deps'' [''PATH'' \<mapsto> ''/usr/bin''] =
     ''/deps/darwin_amd64/git/2.30.1/bin:/deps/darwin_amd64/python-portable-darwin-3.8.4/bin:/usr/bin''"
  by (simp add: createWindow_PATH_def isWindows_def isMacOS_def startsWith_def
      inheritedPATH_def prependPATH_def example_posix_path_def
      darwin_portablePythonLocation_def darwin_portableGitLocation_def)

lemma example_darwin_entries:
  "PATH_entries CHR '':''
     ''/deps/darwin_amd64/git/2.30.1/bin:/deps/darwin_amd64/python-portable-darwin-3.8.4/bin:/usr/bin'' =
   [''/deps/darwin_amd64/git/2.30.1/bin'',
    ''/deps/darwin_amd64/python-portable-darwin-3.8.4/bin'',
    ''/usr/bin'']"
  by simp

text \<open>
  C2, as stated, fails in its second half: the Python location is prepended first and the
  Git location second, so the Git location ends up in front. On macOS with dependencies
  root \<open>/deps\<close> and inherited PATH \<open>/usr/bin\<close> the entries are Git, Python, \<open>/usr/bin\<close>:
  Python does not come before Git.
\<close>

theorem python_is_not_before_git:
  "PATH_entries (path_delimiter example_posix_path)
     (createWindow_PATH example_posix_path ''darwin'' ''/deps'' [''PATH'' \<mapsto> ''/usr/bin'']) =
     [darwin_portableGitLocation example_posix_path ''/deps'',
      darwin_portablePythonLocation example_posix_path ''/deps'',
      ''/usr/bin''] \<and>
   \<not> first_index (darwin_portablePythonLocation example_posix_path ''/deps'')
        (PATH_entries (path_delimiter example_posix_path)
          (createWindow_PATH example_posix_path ''darwin'' ''/deps''
            [''PATH'' \<mapsto> ''/usr/bin'']))
     < first_index (darwin_portableGitLocation example_posix_path ''/deps'')
        (PATH_entries (path_delimiter example_posix_path)
          (createWindow_PATH example_posix_path ''darwin'' ''/deps''
            [''PATH'' \<mapsto> ''/usr/bin'']))"
proof -
  have g: "darwin_portableGitLocation example_posix_path ''/deps'' =
             ''/deps/darwin_amd64/git/2.30.1/bin''"
    by (simp add: darwin_portableGitLocation_def example_posix_path_def)
  have p: "darwin_portablePythonLocation example_posix_path ''/deps'' =
             ''/deps/darwin_amd64/python-portable-darwin-3.8.4/bin''"
    by (simp add: darwin_portablePythonLocation_def example_posix_path_def)
  have d: "path_delimiter example_posix_path = CHR '':''"
    by (simp add: example_posix_path_def)
  show ?thesis
    unfolding example_darwin_PATH g p d example_darwin_entries
    by (simp add: first_index_def)
qed

text \<open>
  C2, amended. On a recognized platform (Windows or macOS), with a non-empty portable
  Python location (\<open>path.join\<close> returns no empty string), the composed PATH is the portable
  Git location, the delimiter, the portable Python location and then, when the inherited
  PATH is non-empty, the delimiter and the inherited PATH unchanged. Both portable
  locations therefore precede every entry of the inherited PATH, and between themselves
  they stand in the reverse of the order in which they are prepended: Git before Python.
  The same holds entry by entry.
\<close>

theorem portable_locations_precede_inherited_PATH:
  "(isWindows platform \<and> windows_portablePythonLocation P dep \<noteq> [] \<longrightarrow>
      createWindow_PATH P platform dep env =
        windows_portableGitLocation P dep @ path_delimiter P #
        windows_portablePythonLocation P dep @
        (if inheritedPATH env = [] then [] else path_delimiter P # inheritedPATH env) \<and>
      PATH_entries (path_delimiter P) (createWindow_PATH P platform dep env) =
        PATH_entries (path_delimiter P) (windows_portableGitLocation P dep) @
        PATH_entries (path_delimiter P) (windows_portablePythonLocation P dep) @
        (if inheritedPATH env = [] then []
         else PATH_entries (path_delimiter P) (inheritedPATH env))) \<and>
   (isMacOS platform \<and> darwin_portablePythonLocation P dep \<noteq> [] \<longrightarrow>
      createWindow_PATH P platform dep env =
        darwin_portableGitLocation P dep @ path_delimiter P #
        darwin_portablePythonLocation P dep @
        (if inheritedPATH env = [] then [] else path_delimiter P # inheritedPATH env) \<and>
      PATH_entries (path_delimiter P) (createWindow_PATH P platform dep env) =
        PATH_entries (path_delimiter P) (darwin_portableGitLocation P dep) @
        PATH_entries (path_delimiter P) (darwin_portablePythonLocation P dep) @
        (if inheritedPATH env = [] then []
         else PATH_entries (path_delimiter P) (inheritedPATH env)))"
proof (intro conjI impI)
  assume w: "isWindows platform \<and> windows_portablePythonLocation P dep \<noteq> []"
  then show "createWindow_PATH P platform dep env =
        windows_portableGitLocation P dep @ path_delimiter P #
        windows_portablePythonLocation P dep @
        (if inheritedPATH env = [] then [] else path_delimiter P # inheritedPATH env)"
    by (simp add: createWindow_PATH_windows prepend_twice)
  from w show "PATH_entries (path_delimiter P) (createWindow_PATH P platform dep env) =
        PATH_entries (path_delimiter P) (windows_portableGitLocation P dep) @
        PATH_entries (path_delimiter P) (windows_portablePythonLocation P dep) @
        (if inheritedPATH env = [] then []
         else PATH_entries (path_delimiter P) (inheritedPATH env))"
    by (simp add: createWindow_PATH_windows prepend_twice_entries)
next
  assume m: "isMacOS platform \<and> darwin_portablePythonLocation P dep \<noteq> []"
  then show "createWindow_PATH P platform dep env =
        darwin_portableGitLocation P dep @ path_delimiter P #
        darwin_portablePythonLocation P dep @
        (if inheritedPATH env = [] then [] else path_delimiter P # inheritedPATH env)"
    by (simp add: createWindow_PATH_macOS prepend_twice)
  from m show "PATH_entries (path_delimiter P) (createWindow_PATH P platform dep env) =
        PATH_entries (path_delimiter P) (darwin_portableGitLocation P dep) @
        PATH_entries (path_delimiter P) (darwin_portablePythonLocation P dep) @
        (if inheritedPATH env = [] then []
         else PATH_entries (path_delimiter P) (inheritedPATH env))"
    by (simp add: createWindow_PATH_macOS prepend_twice_entries)
qed

text \<open>C2, amended, on macOS with an inherited PATH of two entries.\<close>

theorem portable_locations_precede_inherited_PATH_witness:
  "isMacOS ''darwin'' \<and>
   darwin_portablePythonLocation example_posix_path ''/Applications/deps'' \<noteq> [] \<and>
   createWindow_PATH example_posix_path ''darwin'' ''/Applications/deps''
     [''PATH'' \<mapsto> ''/usr/bin:/bin''] =
     ''/Applications/deps/darwin_amd64/git/2.30.1/bin:/Applications/deps/darwin_amd64/python-portable-darwin-3.8.4/bin:/usr/bin:/bin'' \<and>
   PATH_entries CHR '':''
     (createWindow_PATH example_posix_path ''darwin'' ''/Applications/deps''
       [''PATH'' \<mapsto> ''/usr/bin:/bin'']) =
     [''/Applications/deps/darwin_amd64/git/2.30.1/bin'',
      ''/Applications/deps/darwin_amd64/python-portable-darwin-3.8.4/bin'',
      ''/usr/bin'', ''/bin'']"
  using portable_locations_precede_inherited_PATH [of "''darwin''" example_posix_path
      "''/Applications/deps''" "[''PATH'' \<mapsto> ''/usr/bin:/bin'']"]
  by (simp add: isMacOS_def isWindows_def startsWith_def inheritedPATH_def example_posix_path_def
      darwin_portablePythonLocation_def darwin_portableGitLocation_def)

text \<open>
  C10. When the inherited environment has no \<open>PATH\<close> variable, the composition returns
  what it returns for \<open>PATH\<close> set to the empty string: the empty string on an unrecognized
  platform, and on a recognized platform the two portable locations alone (Git, delimiter,
  Python), with no further entry and no trailing delimiter.
\<close>

theorem PATH_undefined_is_empty_string:
  assumes "env ''PATH'' = None"
  shows "createWindow_PATH P platform dep env =
           createWindow_PATH P platform dep (env(''PATH'' \<mapsto> [])) \<and>
         (\<not> isWindows platform \<and> \<not> isMacOS platform \<longrightarrow>
            createWindow_PATH P platform dep env = []) \<and>
         (isWindows platform \<and> windows_portablePythonLocation P dep \<noteq> [] \<longrightarrow>
            createWindow_PATH P platform dep env =
              windows_portableGitLocation P dep @ path_delimiter P #
              windows_portablePythonLocation P dep) \<and>
         (isMacOS platform \<and> darwin_portablePythonLocation P dep \<noteq> [] \<longrightarrow>
            createWindow_PATH P platform dep env =
              darwin_portableGitLocation P dep @ path_delimiter P #
              darwin_portablePythonLocation P dep)"
proof -
  have inh: "inheritedPATH env = []"
    using assms by (simp add: inheritedPATH_def)
  have same: "inheritedPATH (env(''PATH'' \<mapsto> [])) = inheritedPATH env"
    using assms by (simp add: inheritedPATH_def)
  have a: "createWindow_PATH P platform dep env =
             createWindow_PATH P platform dep (env(''PATH'' \<mapsto> []))"
    by (simp only: createWindow_PATH_def same)
  have b: "\<not> isWindows platform \<and> \<not> isMacOS platform \<longrightarrow>
             createWindow_PATH P platform dep env = []"
    by (simp add: createWindow_PATH_def inh)
  have c: "isWindows platform \<and> windows_portablePythonLocation P dep \<noteq> [] \<longrightarrow>
             createWindow_PATH P platform dep env =
               windows_portableGitLocation P dep @ path_delimiter P #
               windows_portablePythonLocation P dep"
    by (simp add: createWindow_PATH_windows prepend_twice inh)
  have d: "isMacOS platform \<and> darwin_portablePythonLocation P dep \<noteq> [] \<longrightarrow>
             createWindow_PATH P platform dep env =
               darwin_portableGitLocation P dep @ path_delimiter P #
               darwin_portablePythonLocation P dep"
    by (simp add: createWindow_PATH_macOS prepend_twice inh)
  from a b c d show ?thesis by blast
qed

text \<open>C10 with an empty environment, on Linux and on macOS.\<close>

theorem PATH_undefined_is_empty_string_witness:
  "(Map.empty :: string \<rightharpoonup> string) ''PATH'' = None \<and>
   createWindow_PATH example_posix_path ''linux'' ''/opt/deps'' Map.empty = [] \<and>
   createWindow_PATH example_posix_path ''darwin'' ''/opt/deps'' Map.empty =
     ''/opt/deps/darwin_amd64/git/2.30.1/bin:/opt/deps/darwin_amd64/python-portable-darwin-3.8.4/bin''"
proof -
  have e: "(Map.empty :: string \<rightharpoonup> string) ''PATH'' = None"
    by simp
  note l = PATH_undefined_is_empty_string [OF e, of example_posix_path "''linux''" "''/opt/deps''"]
  note m = PATH_undefined_is_empty_string [OF e, of example_posix_path "''darwin''" "''/opt/deps''"]
  have nl: "\<not> isWindows ''linux'' \<and> \<not> isMacOS ''linux''"
    by (simp add: isMacOS_def isWindows_def startsWith_def)
  have md: "isMacOS ''darwin'' \<and>
            darwin_portablePythonLocation example_posix_path ''/opt/deps'' \<noteq> []"
    by (simp add: isMacOS_def startsWith_def darwin_portablePythonLocation_def
        example_posix_path_def)
  from l nl have r1: "createWindow_PATH example_posix_path ''linux'' ''/opt/deps'' Map.empty = []"
    by blast
  from m md have "createWindow_PATH example_posix_path ''darwin'' ''/opt/deps'' Map.empty =
      darwin_portableGitLocation example_posix_path ''/opt/deps'' @
      path_delimiter example_posix_path #
      darwin_portablePythonLocation example_posix_path ''/opt/deps''"
    by blast
  then have r2: "createWindow_PATH example_posix_path ''darwin'' ''/opt/deps'' Map.empty =
      ''/opt/deps/darwin_amd64/git/2.30.1/bin:/opt/deps/darwin_amd64/python-portable-darwin-3.8.4/bin''"
    by (simp add: example_posix_path_def darwin_portablePythonLocation_def
        darwin_portableGitLocation_def)
  from e r1 r2 show ?thesis by blast
qed

section \<open>Properties of the fatal error handlers\<close>

lemma before_exit_Cons:
  "before_exit (e # es) = (if is_exit e then [] else e # before_exit es)"
  by (simp add: before_exit_def)

lemma before_exit_Nil: "before_exit [] = []"
  by (simp add: before_exit_def)

text \<open>
  C4, as stated, fails: an \<open>Error\<close> that reaches the \<open>uncaughtException\<close> handler ends the
  process with code 1 once the error box is closed, and one that reaches the
  \<open>unhandledRejection\<close> handler ends it at once when the box cannot be shown. The process is
  not left running.
\<close>

theorem uncaught_error_does_not_keep_process_running:
  "\<not> (process_after
        (on_uncaughtException
          (JsValue (Some ''boom'') (Some ''Error: boom at main.js:1:1'') (Some ''Error: boom''))
          Resolves) = Running) \<and>
   process_after
     (on_uncaughtException
       (JsValue (Some ''boom'') (Some ''Error: boom at main.js:1:1'') (Some ''Error: boom''))
       Resolves) = Exited 1 \<and>
   \<not> (process_after
        (on_unhandledRejection
          (JsValue (Some ''boom'') (Some ''Error: boom at main.js:1:1'') (Some ''Error: boom''))
          Throws) = Running)"
  by (simp add: on_uncaughtException_def on_unhandledRejection_def handleFatalError_def)

text \<open>
  C4, amended. An error that reaches the process-level \<open>uncaughtException\<close> or
  \<open>unhandledRejection\<close> handler is treated as fatal and is not survived.

  \<^item> When the handler can render the value (for \<open>uncaughtException\<close>: \<open>${err.message}\<close>,
    \<open>err.stack\<close> and \<open>${err}\<close>, as for every \<open>Error\<close>; for \<open>unhandledRejection\<close>: \<open>${err}\<close>),
    it first logs the error (\<open>uncaughtException\<close> with message and stack, or
    \<open>unhandledRejection:\<close> with the text), then logs \<open>handling fatal error:\<close> with the text,
    then, before any exit, shows the message box with \<open>Error:\<close> and the text (the error box
    when showing the message box throws). It calls \<open>process.exit (1)\<close> when the box is
    closed, when showing it throws, and when showing it is rejected with a value whose
    stack can be read, then after logging \<open>failed to show error dialog\<close> with that stack.
    The process keeps running only while the box is still open. When showing the box is
    rejected with \<open>null\<close> or \<open>undefined\<close>, the \<open>catch\<close> callback throws before
    \<open>process.exit (1)\<close>.
  \<^item> When the value cannot be rendered (\<open>null\<close> or \<open>undefined\<close> at \<open>uncaughtException\<close>,
    where \<open>err.message\<close> throws; a value whose conversion to a string throws), the handler
    throws before it shows a box or calls \<open>process.exit (1)\<close>, and for \<open>null\<close> or
    \<open>undefined\<close> at \<open>uncaughtException\<close> before it logs anything; the process then ends
    with Node's exit code 7 when the listener is the one of \<open>uncaughtException\<close>.
\<close>

theorem fatal_error_ends_process:
  "(render_message err = Some m \<and> read_stack err = Some st \<and> render err = Some t \<longrightarrow>
      take 2 (on_uncaughtException err outcome) =
        [LoggerError (''uncaughtException '' @ m) st,
         LoggerError (''handling fatal error: '' @ t) None] \<and>
      (if outcome = Throws
       then ShowErrorBox ''Oops! Something went wrong!'' (''Error: '' @ t)
       else ShowMessageBox (''Error: '' @ t))
        \<in> set (before_exit (on_uncaughtException err outcome)) \<and>
      (\<forall>d s. outcome = Rejects d \<and> read_stack d = Some s \<longrightarrow>
         LoggerError ''failed to show error dialog'' s
           \<in> set (before_exit (on_uncaughtException err outcome))) \<and>
      process_after (on_uncaughtException err outcome) =
        (case outcome of
           Pending \<Rightarrow> Running
         | Rejects d \<Rightarrow> (case read_stack d of None \<Rightarrow> CallbackThrew | Some s \<Rightarrow> Exited 1)
         | _ \<Rightarrow> Exited 1)) \<and>
   (render err = Some t \<longrightarrow>
      take 2 (on_unhandledRejection err outcome) =
        [LoggerError (''unhandledRejection: '' @ t) None,
         LoggerError (''handling fatal error: '' @ t) None] \<and>
      (if outcome = Throws
       then ShowErrorBox ''Oops! Something went wrong!'' (''Error: '' @ t)
       else ShowMessageBox (''Error: '' @ t))
        \<in> set (before_exit (on_unhandledRejection err outcome)) \<and>
      (\<forall>d s. outcome = Rejects d \<and> read_stack d = Some s \<longrightarrow>
         LoggerError ''failed to show error dialog'' s
           \<in> set (before_exit (on_unhandledRejection err outcome))) \<and>
      process_after (on_unhandledRejection err outcome) =
        (case outcome of
           Pending \<Rightarrow> Running
         | Rejects d \<Rightarrow> (case read_stack d of None \<Rightarrow> CallbackThrew | Some s \<Rightarrow> Exited 1)
         | _ \<Rightarrow> Exited 1)) \<and>
   (render_message err = None \<longrightarrow>
      on_uncaughtException err outcome = [ListenerThrows] \<and>
      uncaughtException_status (on_uncaughtException err outcome) = Exited 7) \<and>
   (render_message err = Some m \<and> read_stack err = Some st \<and> render err = None \<longrightarrow>
      on_uncaughtException err outcome =
        [LoggerError (''uncaughtException '' @ m) st, ListenerThrows] \<and>
      uncaughtException_status (on_uncaughtException err outcome) = Exited 7) \<and>
   (render err = None \<longrightarrow>
      on_unhandledRejection err outcome = [ListenerThrows] \<and>
      process_after (on_unhandledRejection err outcome) = ListenerThrew)"
proof (intro conjI impI)
  assume h: "render_message err = Some m \<and> read_stack err = Some st \<and> render err = Some t"
  then have tr: "on_uncaughtException err outcome =
      LoggerError (''uncaughtException '' @ m) st #
      LoggerError (''handling fatal error: '' @ t) None #
      tl (handleFatalError err outcome)"
    by (simp add: on_uncaughtException_def handleFatalError_def)
  show "take 2 (on_uncaughtException err outcome) =
        [LoggerError (''uncaughtException '' @ m) st,
         LoggerError (''handling fatal error: '' @ t) None]"
    by (simp add: tr numeral_2_eq_2)
  from h show "(if outcome = Throws
       then ShowErrorBox ''Oops! Something went wrong!'' (''Error: '' @ t)
       else ShowMessageBox (''Error: '' @ t))
        \<in> set (before_exit (on_uncaughtException err outcome))"
    by (cases outcome)
      (simp_all add: on_uncaughtException_def handleFatalError_def before_exit_Cons before_exit_Nil
        split: option.splits)
  from h show "\<forall>d s. outcome = Rejects d \<and> read_stack d = Some s \<longrightarrow>
         LoggerError ''failed to show error dialog'' s
           \<in> set (before_exit (on_uncaughtException err outcome))"
    by (simp add: on_uncaughtException_def handleFatalError_def before_exit_Cons before_exit_Nil)
  from h show "process_after (on_uncaughtException err outcome) =
        (case outcome of
           Pending \<Rightarrow> Running
         | Rejects d \<Rightarrow> (case read_stack d of None \<Rightarrow> CallbackThrew | Some s \<Rightarrow> Exited 1)
         | _ \<Rightarrow> Exited 1)"
    by (cases outcome)
      (simp_all add: on_uncaughtException_def handleFatalError_def split: option.splits)
next
  assume h: "render err = Some t"
  then have tr: "on_unhandledRejection err outcome =
      LoggerError (''unhandledRejection: '' @ t) None #
      LoggerError (''handling fatal error: '' @ t) None #
      tl (handleFatalError err outcome)"
    by (simp add: on_unhandledRejection_def handleFatalError_def)
  show "take 2 (on_unhandledRejection err outcome) =
        [LoggerError (''unhandledRejection: '' @ t) None,
         LoggerError (''handling fatal error: '' @ t) None]"
    by (simp add: tr numeral_2_eq_2)
  from h show "(if outcome = Throws
       then ShowErrorBox ''Oops! Something went wrong!'' (''Error: '' @ t)
       else ShowMessageBox (''Error: '' @ t))
        \<in> set (before_exit (on_unhandledRejection err outcome))"
    by (cases outcome)
      (simp_all add: on_unhandledRejection_def handleFatalError_def before_exit_Cons before_exit_Nil
        split: option.splits)
  from h show "\<forall>d s. outcome = Rejects d \<and> read_stack d = Some s \<longrightarrow>
         LoggerError ''failed to show error dialog'' s
           \<in> set (before_exit (on_unhandledRejection err outcome))"
    by (simp add: on_unhandledRejection_def handleFatalError_def before_exit_Cons before_exit_Nil)
  from h show "process_after (on_unhandledRejection err outcome) =
        (case outcome of
           Pending \<Rightarrow> Running
         | Rejects d \<Rightarrow> (case read_stack d of None \<Rightarrow> CallbackThrew | Some s \<Rightarrow> Exited 1)
         | _ \<Rightarrow> Exited 1)"
    by (cases outcome)
      (simp_all add: on_unhandledRejection_def handleFatalError_def split: option.splits)
next
  assume h: "render_message err = None"
  then show "on_uncaughtException err outcome = [ListenerThrows]"
    by (simp add: on_uncaughtException_def)
  then show "uncaughtException_status (on_uncaughtException err outcome) = Exited 7"
    by (simp add: uncaughtException_status_def)
next
  assume h: "render_message err = Some m \<and> read_stack err = Some st \<and> render err = None"
  then show a: "on_uncaughtException err outcome =
        [LoggerError (''uncaughtException '' @ m) st, ListenerThrows]"
    by (simp add: on_uncaughtException_def handleFatalError_def)
  show "uncaughtException_status (on_uncaughtException err outcome) = Exited 7"
    by (simp add: a uncaughtException_status_def)
next
  assume h: "render err = None"
  then show a: "on_unhandledRejection err outcome = [ListenerThrows]"
    by (simp add: on_unhandledRejection_def)
  show "process_after (on_unhandledRejection err outcome) = ListenerThrew"
    by (simp add: a)
qed

text \<open>
  C4, amended, for an \<open>Error\<close> whose box is closed by the user, and for a thrown \<open>null\<close>.
\<close>

theorem fatal_error_ends_process_witness:
  "render_message (JsValue (Some ''boom'') (Some ''Error: boom at main.js:1:1'') (Some ''Error: boom''))
     = Some ''boom'' \<and>
   read_stack (JsValue (Some ''boom'') (Some ''Error: boom at main.js:1:1'') (Some ''Error: boom''))
     = Some (Some ''Error: boom at main.js:1:1'') \<and>
   render (JsValue (Some ''boom'') (Some ''Error: boom at main.js:1:1'') (Some ''Error: boom''))
     = Some ''Error: boom'' \<and>
   take 2 (on_uncaughtException
      (JsValue (Some ''boom'') (Some ''Error: boom at main.js:1:1'') (Some ''Error: boom''))
      Resolves) =
     [LoggerError ''uncaughtException boom'' (Some ''Error: boom at main.js:1:1''),
      LoggerError ''handling fatal error: Error: boom'' None] \<and>
   ShowMessageBox ''Error: Error: boom'' \<in> set (before_exit (on_uncaughtException
      (JsValue (Some ''boom'') (Some ''Error: boom at main.js:1:1'') (Some ''Error: boom''))
      Resolves)) \<and>
   process_after (on_uncaughtException
      (JsValue (Some ''boom'') (Some ''Error: boom at main.js:1:1'') (Some ''Error: boom''))
      Resolves) = Exited 1 \<and>
   render_message JsNull = None \<and>
   on_uncaughtException JsNull Resolves = [ListenerThrows] \<and>
   uncaughtException_status (on_uncaughtException JsNull Resolves) = Exited 7"
proof -
  let ?e = "JsValue (Some ''boom'') (Some ''Error: boom at main.js:1:1'') (Some ''Error: boom'')"
  have h: "render_message ?e = Some ''boom'' \<and>
           read_stack ?e = Some (Some ''Error: boom at main.js:1:1'') \<and>
           render ?e = Some ''Error: boom''"
    by simp
  have n: "render_message JsNull = None"
    by simp
  note a = fatal_error_ends_process [of ?e "''boom''" "Some ''Error: boom at main.js:1:1''"
      "''Error: boom''" Resolves]
  note b = fatal_error_ends_process [of JsNull "''boom''" None "''null''" Resolves]
  from a h have
    "take 2 (on_uncaughtException ?e Resolves) =
       [LoggerError (''uncaughtException '' @ ''boom'') (Some ''Error: boom at main.js:1:1''),
        LoggerError (''handling fatal error: '' @ ''Error: boom'') None]"
    and "(if Resolves = Throws
          then ShowErrorBox ''Oops! Something went wrong!'' (''Error: '' @ ''Error: boom'')
          else ShowMessageBox (''Error: '' @ ''Error: boom''))
         \<in> set (before_exit (on_uncaughtException ?e Resolves))"
    and "process_after (on_uncaughtException ?e Resolves) =
          (case Resolves of
             Pending \<Rightarrow> Running
           | Rejects d \<Rightarrow> (case read_stack d of None \<Rightarrow> CallbackThrew | Some s \<Rightarrow> Exited 1)
           | _ \<Rightarrow> Exited 1)"
    by blast+
  then have r1:
    "take 2 (on_uncaughtException ?e Resolves) =
       [LoggerError ''uncaughtException boom'' (Some ''Error: boom at main.js:1:1''),
        LoggerError ''handling fatal error: Error: boom'' None]"
    and r2: "ShowMessageBox ''Error: Error: boom''
         \<in> set (before_exit (on_uncaughtException ?e Resolves))"
    and r3: "process_after (on_uncaughtException ?e Resolves) = Exited 1"
    by simp_all
  from b n have r4: "on_uncaughtException JsNull Resolves = [ListenerThrows]"
    and r5: "uncaughtException_status (on_uncaughtException JsNull Resolves) = Exited 7"
    by blast+
  from h n r1 r2 r3 r4 r5 show ?thesis by blast
qed

end
